theory Spec2Isabelle
  imports Main
begin

section \<open>Values of the host language\<close>

text \<open>
  The provider component of \<^verbatim>\<open>frontend/src/context/AuthContext.tsx\<close> runs on a
  JavaScript engine. A value is a scalar, an array or an object; an object is a finite
  map from property names to values.
\<close>

datatype jsval =
    JNull
  | JBool bool
  | JNum int
  | JStr string
  | JArr "jsval list"
  | JObj "string \<Rightarrow> jsval option"

type_synonym jsobj = "string \<rightharpoonup> jsval"

text \<open>
  Anything can be thrown. The handlers of \<^verbatim>\<open>login\<close> and \<^verbatim>\<open>signup\<close> test
  \<^verbatim>\<open>error instanceof Error\<close>, so a thrown value is either an instance of \<^verbatim>\<open>Error\<close>
  with its \<^verbatim>\<open>message\<close>, or any other value.
\<close>

datatype thrown = ErrorInstance string | NonError jsval

section \<open>The data model\<close>

text \<open>
  \<^verbatim>\<open>interface User { uid: string; email?: string; displayName?: string }\<close> is only
  the static view. The value stored is the object literal \<^verbatim>\<open>{ uid, ...profile }\<close>,
  which has every own property of the fetched profile, so a user is an object.
\<close>

record AuthState =
  user :: "jsobj option"
  isAuthenticated :: bool
  isLoading :: bool
  error :: "string option"

text \<open>The argument of \<^verbatim>\<open>useState\<close> (lines 33 to 38).\<close>

definition initialState :: AuthState where
  "initialState = \<lparr>user = None, isAuthenticated = False, isLoading = True, error = None\<rparr>"

text \<open>
  What the component does to its surroundings, in the order it does it: a line on the
  console, a call of the credential cache, a call of \<^verbatim>\<open>setState\<close> (recorded with the
  state it commits). The last constructor is not an act of the component: it records
  that a promise which the component created and left without a handler was rejected,
  which the host reports as an unhandled rejection.
\<close>

datatype effect =
    ConsoleError string thrown
  | ClearAuth
  | SetAuth string string
  | SetState AuthState
  | UnhandledRejection thrown

text \<open>
  The three asynchronous operations suspend at each \<^verbatim>\<open>await\<close>. A call is recorded
  with the point it is suspended at, or with how its promise settled. \<open>ResolvedDetached\<close>
  is a call of \<^verbatim>\<open>logout\<close> whose own promise has resolved while the promise that its
  \<^verbatim>\<open>apiClient.logout()\<close> returned, which \<^verbatim>\<open>logout\<close> does not await, is still pending.
\<close>

datatype op_kind = Login | Signup | Logout

datatype op_status =
    AwaitBackend
  | AwaitExchange
  | AwaitSignOut
  | Resolved
  | ResolvedDetached
  | Rejected thrown

text \<open>
  The whole of what the component owns or touches:
  \<^item> \<open>state\<close>: the React state;
  \<^item> \<open>cache\<close>: the credential cache behind \<^verbatim>\<open>authManager\<close>;
  \<^item> \<open>effects\<close>: the effects so far, oldest first;
  \<^item> \<open>fetches\<close>: one entry per invocation of the session callback that reached
    \<^verbatim>\<open>await apiClient.getProfile()\<close>, with the \<^verbatim>\<open>uid\<close> captured by its closure and
    whether it is still suspended there;
  \<^item> \<open>calls\<close>: one entry per call of \<^verbatim>\<open>login\<close>, \<^verbatim>\<open>signup\<close> or \<^verbatim>\<open>logout\<close>.
\<close>

record world =
  state :: AuthState
  cache :: "(string \<times> string) option"
  effects :: "effect list"
  fetches :: "(string \<times> bool) list"
  calls :: "(op_kind \<times> op_status) list"

definition initialWorld :: world where
  "initialWorld = \<lparr>state = initialState, cache = None, effects = [], fetches = [], calls = []\<rparr>"

section \<open>Primitive effects\<close>

text \<open>
  \<^verbatim>\<open>setState\<close> with an updater function; \<^verbatim>\<open>setState(value)\<close> is the constant updater.
  React applies queued updates in the order of the calls, each to the result of the one
  before, so a call is modelled by applying its updater at once.
\<close>

definition setState :: "(AuthState \<Rightarrow> AuthState) \<Rightarrow> world \<Rightarrow> world" where
  "setState f w = w\<lparr>state := f (state w), effects := effects w @ [SetState (f (state w))]\<rparr>"

definition consoleError :: "string \<Rightarrow> thrown \<Rightarrow> world \<Rightarrow> world" where
  "consoleError label e w = w\<lparr>effects := effects w @ [ConsoleError label e]\<rparr>"

text \<open>
  Modelled from the spec: \<^verbatim>\<open>authManager\<close> is imported from \<^verbatim>\<open>@/api/client\<close>, which
  is not part of the sources at hand. The specification describes it as a local
  credential cache with \<^verbatim>\<open>setAuth(token, subjectId)\<close> and \<^verbatim>\<open>clearAuth()\<close>, a
  best-effort store: \<open>setAuth\<close> stores the pair, \<open>clearAuth\<close> empties the cache, and
  neither throws.
\<close>

definition setAuth :: "string \<Rightarrow> string \<Rightarrow> world \<Rightarrow> world" where
  "setAuth token uid w = w\<lparr>cache := Some (token, uid), effects := effects w @ [SetAuth token uid]\<rparr>"

definition clearAuth :: "world \<Rightarrow> world" where
  "clearAuth w = w\<lparr>cache := None, effects := effects w @ [ClearAuth]\<rparr>"

section \<open>The session callback (lines 44 to 69)\<close>

text \<open>
  The object literal \<^verbatim>\<open>{ uid, ...profile }\<close>: the property \<open>uid\<close> first, then every
  own property of the profile, a later property replacing an earlier one of the same
  name.
\<close>

definition mergeUser :: "string \<Rightarrow> jsobj \<Rightarrow> jsobj" where
  "mergeUser uid profile = [''uid'' \<mapsto> JStr uid] ++ profile"

text \<open>
  The callback up to its first suspension. With a user it reads \<^verbatim>\<open>firebaseUser.uid\<close>
  and suspends at \<^verbatim>\<open>await apiClient.getProfile()\<close>; nothing is committed yet. With
  \<^verbatim>\<open>null\<close> it runs to its end.
\<close>

definition sessionChanged :: "string option \<Rightarrow> world \<Rightarrow> world" where
  "sessionChanged firebaseUser w =
     (case firebaseUser of
        Some uid \<Rightarrow> w\<lparr>fetches := fetches w @ [(uid, True)]\<rparr>
      | None \<Rightarrow>
          setState (\<lambda>_. \<lparr>user = None, isAuthenticated = False, isLoading = False, error = None\<rparr>)
            (clearAuth w))"

text \<open>The rest of the \<^verbatim>\<open>try\<close> block, run when the profile fetch fulfils.\<close>

definition profileFulfilled :: "string \<Rightarrow> jsobj \<Rightarrow> world \<Rightarrow> world" where
  "profileFulfilled uid profile w =
     setAuth [] uid
       (setState (\<lambda>_. \<lparr>user = Some (mergeUser uid profile), isAuthenticated = True,
                        isLoading = False, error = None\<rparr>) w)"

text \<open>The \<^verbatim>\<open>catch\<close> block, run when the profile fetch rejects.\<close>

definition profileRejected :: "thrown \<Rightarrow> world \<Rightarrow> world" where
  "profileRejected e w =
     setState (\<lambda>prev. prev\<lparr>error := Some ''Failed to load profile''\<rparr>)
       (consoleError ''Failed to fetch profile:'' e w)"

section \<open>The operations (lines 74 to 109)\<close>

text \<open>\<^verbatim>\<open>error instanceof Error ? error.message : fallback\<close>\<close>

fun errMsg :: "thrown \<Rightarrow> string \<Rightarrow> string" where
  "errMsg (ErrorInstance m) fallback = m"
| "errMsg (NonError v) fallback = fallback"

text \<open>
  \<^verbatim>\<open>login\<close> and \<^verbatim>\<open>signup\<close> up to their first suspension, at the backend call. The
  email and the password go to the backend only.
\<close>

definition login :: "string \<Rightarrow> string \<Rightarrow> world \<Rightarrow> world" where
  "login email password w =
     (setState (\<lambda>prev. prev\<lparr>isLoading := True, error := None\<rparr>) w)
       \<lparr>calls := calls w @ [(Login, AwaitBackend)]\<rparr>"

definition signup :: "string \<Rightarrow> string \<Rightarrow> world \<Rightarrow> world" where
  "signup email password w =
     (setState (\<lambda>prev. prev\<lparr>isLoading := True, error := None\<rparr>) w)
       \<lparr>calls := calls w @ [(Signup, AwaitBackend)]\<rparr>"

text \<open>The fallback text of each handler.\<close>

fun fallbackMsg :: "op_kind \<Rightarrow> string" where
  "fallbackMsg Login = ''Login failed''"
| "fallbackMsg Signup = ''Signup failed''"
| "fallbackMsg Logout = ''Logout failed''"

text \<open>
  The \<^verbatim>\<open>catch\<close> block of \<^verbatim>\<open>login\<close> and \<^verbatim>\<open>signup\<close>: record the message, then
  \<^verbatim>\<open>throw error\<close>, which rejects the call's promise with the value caught.
\<close>

definition opCatch :: "nat \<Rightarrow> op_kind \<Rightarrow> thrown \<Rightarrow> world \<Rightarrow> world" where
  "opCatch i k e w =
     (setState (\<lambda>prev. prev\<lparr>isLoading := False, error := Some (errMsg e (fallbackMsg k))\<rparr>) w)
       \<lparr>calls := (calls w)[i := (k, Rejected e)]\<rparr>"

text \<open>
  \<^verbatim>\<open>logout\<close> up to its suspension at \<^verbatim>\<open>await auth.signOut()\<close>: it commits nothing.
\<close>

definition logout :: "world \<Rightarrow> world" where
  "logout w = w\<lparr>calls := calls w @ [(Logout, AwaitSignOut)]\<rparr>"

text \<open>
  The rest of \<^verbatim>\<open>logout\<close>. If the sign-out rejected, the handler logs and the function
  returns. Otherwise \<^verbatim>\<open>apiClient.logout()\<close> is called (line 101) and its value is
  dropped: there is no \<^verbatim>\<open>await\<close>. If the call itself throws, the throw reaches the same
  handler. If it returns, \<^verbatim>\<open>logout\<close> is at its end and its promise resolves, whatever
  becomes of the value returned.

  Modelled from the spec: \<^verbatim>\<open>apiClient\<close> is imported from \<^verbatim>\<open>@/api/client\<close>, which is
  not part of the sources at hand. The specification gives the backend collaborator's
  \<^verbatim>\<open>logout()\<close> as returning a promise, so a call that returns leaves a pending promise
  behind.
\<close>

definition logoutResumed :: "nat \<Rightarrow> thrown option \<Rightarrow> thrown option \<Rightarrow> world \<Rightarrow> world" where
  "logoutResumed i signOutError backendError w =
     (case signOutError of
        Some e \<Rightarrow>
          (consoleError ''Logout failed:'' e w)\<lparr>calls := (calls w)[i := (Logout, Resolved)]\<rparr>
      | None \<Rightarrow>
          (case backendError of
             Some e \<Rightarrow>
               (consoleError ''Logout failed:'' e w)\<lparr>calls := (calls w)[i := (Logout, Resolved)]\<rparr>
           | None \<Rightarrow> w\<lparr>calls := (calls w)[i := (Logout, ResolvedDetached)]\<rparr>))"

text \<open>
  The promise left behind settles. No code of the component is attached to it: a
  fulfilment passes unnoticed, and a rejection is an unhandled rejection. Neither the
  \<^verbatim>\<open>catch\<close> block of \<^verbatim>\<open>logout\<close> nor its \<^verbatim>\<open>console.error\<close> runs.
\<close>

definition backendLogoutSettled :: "nat \<Rightarrow> thrown option \<Rightarrow> world \<Rightarrow> world" where
  "backendLogoutSettled i r w =
     (case r of
        None \<Rightarrow> w\<lparr>calls := (calls w)[i := (Logout, Resolved)]\<rparr>
      | Some e \<Rightarrow>
          w\<lparr>effects := effects w @ [UnhandledRejection e],
            calls := (calls w)[i := (Logout, Resolved)]\<rparr>)"

definition clearError :: "world \<Rightarrow> world" where
  "clearError w = setState (\<lambda>prev. prev\<lparr>error := None\<rparr>) w"

section \<open>The event loop\<close>

text \<open>
  Everything runs on one thread. What happens next is one of: the identity provider
  invokes the session callback, a pending promise settles and the code suspended on it
  resumes, or the application calls an operation.
\<close>

datatype event =
    SessionChanged "string option"
  | ProfileSettled nat "thrown + jsobj"
  | LoginCalled string string
  | SignupCalled string string
  | BackendSettled nat "thrown + string"
  | ExchangeSettled nat "thrown option"
  | LogoutCalled
  | SignOutSettled nat "thrown option" "thrown option"
  | BackendLogoutSettled nat "thrown option"
  | ClearErrorCalled

text \<open>
  One event. A settlement is possible only of something that is pending; otherwise the
  result is \<open>None\<close>. \<open>BackendSettled i (Inr token)\<close> is the backend answering with a
  response whose \<^verbatim>\<open>custom_token\<close> is \<open>token\<close>, which goes to
  \<^verbatim>\<open>signInWithCustomToken\<close>; reading \<^verbatim>\<open>custom_token\<close> of a \<^verbatim>\<open>null\<close> response
  raises a \<^verbatim>\<open>TypeError\<close> inside the same \<^verbatim>\<open>try\<close>, which is \<open>BackendSettled i (Inl e)\<close>.
  \<open>SignOutSettled i s b\<close> is the sign-out of the \<open>i\<close>-th call settling, rejected with
  \<open>s\<close> if present; \<open>b\<close>, if present, is what the call \<^verbatim>\<open>apiClient.logout()\<close> throws when
  it is reached. \<open>BackendLogoutSettled i r\<close> is the promise returned by that call
  settling later, rejected with \<open>r\<close> if present.
\<close>

fun step :: "event \<Rightarrow> world \<Rightarrow> world option" where
  "step (SessionChanged firebaseUser) w = Some (sessionChanged firebaseUser w)"
| "step (ProfileSettled i r) w =
     (if i < length (fetches w) \<and> snd (fetches w ! i) then
        (let uid = fst (fetches w ! i);
             w' = w\<lparr>fetches := (fetches w)[i := (uid, False)]\<rparr>
         in case r of
              Inr profile \<Rightarrow> Some (profileFulfilled uid profile w')
            | Inl e \<Rightarrow> Some (profileRejected e w'))
      else None)"
| "step (LoginCalled email password) w = Some (login email password w)"
| "step (SignupCalled email password) w = Some (signup email password w)"
| "step (BackendSettled i r) w =
     (if i < length (calls w) then
        (case calls w ! i of
           (k, AwaitBackend) \<Rightarrow>
             (case r of
                Inr token \<Rightarrow> Some (w\<lparr>calls := (calls w)[i := (k, AwaitExchange)]\<rparr>)
              | Inl e \<Rightarrow> Some (opCatch i k e w))
         | _ \<Rightarrow> None)
      else None)"
| "step (ExchangeSettled i r) w =
     (if i < length (calls w) then
        (case calls w ! i of
           (k, AwaitExchange) \<Rightarrow>
             (case r of
                None \<Rightarrow> Some (w\<lparr>calls := (calls w)[i := (k, Resolved)]\<rparr>)
              | Some e \<Rightarrow> Some (opCatch i k e w))
         | _ \<Rightarrow> None)
      else None)"
| "step LogoutCalled w = Some (logout w)"
| "step (SignOutSettled i signOutError backendError) w =
     (if i < length (calls w) then
        (case calls w ! i of
           (Logout, AwaitSignOut) \<Rightarrow> Some (logoutResumed i signOutError backendError w)
         | _ \<Rightarrow> None)
      else None)"
| "step (BackendLogoutSettled i r) w =
     (if i < length (calls w) then
        (case calls w ! i of
           (Logout, ResolvedDetached) \<Rightarrow> Some (backendLogoutSettled i r w)
         | _ \<Rightarrow> None)
      else None)"
| "step ClearErrorCalled w = Some (clearError w)"

text \<open>A sequence of events, from a given world.\<close>

fun run :: "world \<Rightarrow> event list \<Rightarrow> world option" where
  "run w [] = Some w"
| "run w (e # es) = (case step e w of None \<Rightarrow> None | Some w' \<Rightarrow> run w' es)"

section \<open>The accessor (lines 118 to 124)\<close>

text \<open>
  The value given to \<^verbatim>\<open>AuthContext.Provider\<close>: the fields of the state and the four
  operations.
\<close>

record AuthContextType = AuthState +
  login_fn :: "string \<Rightarrow> string \<Rightarrow> world \<Rightarrow> world"
  signup_fn :: "string \<Rightarrow> string \<Rightarrow> world \<Rightarrow> world"
  logout_fn :: "world \<Rightarrow> world"
  clearError_fn :: "world \<Rightarrow> world"

definition providerValue :: "AuthState \<Rightarrow> AuthContextType" where
  "providerValue s =
     \<lparr>user = user s, isAuthenticated = isAuthenticated s, isLoading = isLoading s,
      error = error s,
      login_fn = login, signup_fn = signup, logout_fn = logout, clearError_fn = clearError\<rparr>"

text \<open>
  \<^verbatim>\<open>useContext(AuthContext)\<close> is \<^verbatim>\<open>null\<close> outside a provider (the default of
  \<^verbatim>\<open>createContext\<close>) and the provider's value inside one. An object is never falsy.
\<close>

definition useAuth :: "AuthContextType option \<Rightarrow> thrown + AuthContextType" where
  "useAuth context =
     (case context of
        None \<Rightarrow> Inl (ErrorInstance ''useAuth must be used within an AuthProvider'')
      | Some c \<Rightarrow> Inr c)"

section \<open>Predicates used in the statements\<close>

text \<open>The flag agrees with the presence of the user.\<close>

definition authConsistent :: "AuthState \<Rightarrow> bool" where
  "authConsistent s = (isAuthenticated s = (user s \<noteq> None))"

text \<open>A recorded effect is fine when the state it commits, if any, is consistent.\<close>

fun committedConsistent :: "effect \<Rightarrow> bool" where
  "committedConsistent (SetState s) = authConsistent s"
| "committedConsistent _ = True"

definition worldConsistent :: "world \<Rightarrow> bool" where
  "worldConsistent w = (authConsistent (state w) \<and> list_all committedConsistent (effects w))"

text \<open>
  A call of \<^verbatim>\<open>logout\<close> is suspended at the sign-out or has resolved; it is never
  rejected. Calls of the other operations are not constrained.
\<close>

fun logoutEntryOk :: "op_kind \<times> op_status \<Rightarrow> bool" where
  "logoutEntryOk (Logout, AwaitSignOut) = True"
| "logoutEntryOk (Logout, Resolved) = True"
| "logoutEntryOk (Logout, ResolvedDetached) = True"
| "logoutEntryOk (Logout, st) = False"
| "logoutEntryOk (k, st) = True"

text \<open>The lines that the component itself wrote on the console.\<close>

fun consoleLines :: "effect list \<Rightarrow> (string \<times> thrown) list" where
  "consoleLines [] = []"
| "consoleLines (ConsoleError label e # fs) = (label, e) # consoleLines fs"
| "consoleLines (f # fs) = consoleLines fs"

section \<open>Unfolding and list lemmas\<close>

lemmas prim_defs = setState_def consoleError_def setAuth_def clearAuth_def

lemmas handler_defs =
  sessionChanged_def profileFulfilled_def profileRejected_def login_def signup_def
  opCatch_def logout_def logoutResumed_def backendLogoutSettled_def clearError_def

lemmas eval_defs = initialWorld_def initialState_def prim_defs handler_defs mergeUser_def Let_def

lemma list_all_update:
  "list_all P xs \<Longrightarrow> P v \<Longrightarrow> list_all P (xs[i := v])"
  by (induction xs arbitrary: i) (auto split: nat.splits)

lemma list_all_nth: "list_all P xs \<Longrightarrow> i < length xs \<Longrightarrow> P (xs ! i)"
  by (simp add: list_all_length)

section \<open>Consistency of the authentication flag\<close>

lemma step_worldConsistent:
  "step e w = Some w' \<Longrightarrow> worldConsistent w \<Longrightarrow> worldConsistent w'"
  by (cases e)
     (auto simp: worldConsistent_def authConsistent_def prim_defs handler_defs Let_def
        split: if_splits option.splits sum.splits prod.splits op_status.splits op_kind.splits)

lemma run_worldConsistent:
  "run w es = Some w' \<Longrightarrow> worldConsistent w \<Longrightarrow> worldConsistent w'"
proof (induction es arbitrary: w)
  case Nil
  then show ?case by simp
next
  case (Cons e es)
  then show ?case
    by (auto split: option.splits dest: step_worldConsistent)
qed

lemma initial_worldConsistent: "worldConsistent initialWorld"
  by (simp add: worldConsistent_def authConsistent_def initialWorld_def initialState_def)

text \<open>
  Claim C1. In the initial state, and after any sequence of events (session changes,
  settlements of profile fetches, calls and settlements of login, signup and logout,
  calls of clearError), \<open>isAuthenticated\<close> is true exactly when \<open>user\<close> is present;
  the same holds of every state that any \<^verbatim>\<open>setState\<close> call committed on the way.
\<close>

theorem reachable_authenticated_iff_user:
  assumes "run initialWorld es = Some w"
  shows "isAuthenticated (state w) = (user (state w) \<noteq> None)
       \<and> list_all committedConsistent (effects w)"
  using run_worldConsistent [OF assms initial_worldConsistent]
  by (simp add: worldConsistent_def authConsistent_def)

text \<open>
  The invariant at work: a session with a profile, then a login attempt that the backend
  turns down, then clearError. The run exists and ends authenticated with the user
  present.
\<close>

theorem reachable_authenticated_iff_user_witness:
  "map_option (isAuthenticated \<circ> state)
     (run initialWorld
        [SessionChanged (Some ''u1''),
         ProfileSettled 0 (Inr [''email'' \<mapsto> JStr ''a@x.com'']),
         LoginCalled ''a@x.com'' ''pw'',
         BackendSettled 0 (Inl (ErrorInstance ''invalid credentials'')),
         ClearErrorCalled]) = Some True
   \<and> map_option (user \<circ> state)
     (run initialWorld
        [SessionChanged (Some ''u1''),
         ProfileSettled 0 (Inr [''email'' \<mapsto> JStr ''a@x.com'']),
         LoginCalled ''a@x.com'' ''pw'',
         BackendSettled 0 (Inl (ErrorInstance ''invalid credentials'')),
         ClearErrorCalled])
     = Some (Some [''uid'' \<mapsto> JStr ''u1'', ''email'' \<mapsto> JStr ''a@x.com''])"
proof -
  have r: "run initialWorld
     [SessionChanged (Some ''u1''), ProfileSettled 0 (Inr [''email'' \<mapsto> JStr ''a@x.com'']),
      LoginCalled ''a@x.com'' ''pw'', BackendSettled 0 (Inl (ErrorInstance ''invalid credentials'')),
      ClearErrorCalled]
   = Some (clearError (opCatch 0 Login (ErrorInstance ''invalid credentials'')
       (login ''a@x.com'' ''pw''
         (profileFulfilled ''u1'' [''email'' \<mapsto> JStr ''a@x.com'']
           ((sessionChanged (Some ''u1'') initialWorld)\<lparr>fetches := [(''u1'', False)]\<rparr>)))))"
    by (simp add: eval_defs)
  show ?thesis
    using reachable_authenticated_iff_user [OF r] by (simp add: r) (simp add: eval_defs)
qed

section \<open>The absence branch\<close>

text \<open>
  Claim C3. Whatever the world was, a session change to \<^verbatim>\<open>null\<close> first calls
  \<^verbatim>\<open>clearAuth\<close>, which empties the credential cache, and then commits the state with
  no user, not authenticated, not loading and no error. Nothing else changes.
\<close>

theorem absence_clears_cache_then_commits:
  "step (SessionChanged None) w =
     Some (w\<lparr>state := \<lparr>user = None, isAuthenticated = False, isLoading = False, error = None\<rparr>,
             cache := None,
             effects := effects w @
               [ClearAuth,
                SetState \<lparr>user = None, isAuthenticated = False, isLoading = False, error = None\<rparr>]\<rparr>)"
  by (simp add: sessionChanged_def prim_defs)

section \<open>A profile fetch that outlives its session\<close>

text \<open>
  The callback keeps no record of which subject is current and compares nothing when a
  fetch settles. From the initial world: presence of \<open>A\<close>, then absence, then the
  fetch of \<open>A\<close> fulfils. The last commit is the authenticated state for \<open>A\<close>.
\<close>

theorem stale_profile_resurrects_user_counterexample:
  "map_option state
     (run initialWorld
        [SessionChanged (Some ''A''), SessionChanged None,
         ProfileSettled 0 (Inr [''email'' \<mapsto> JStr ''a@x.com''])])
   = Some \<lparr>user = Some [''uid'' \<mapsto> JStr ''A'', ''email'' \<mapsto> JStr ''a@x.com''],
            isAuthenticated = True, isLoading = False, error = None\<rparr>"
  by (simp add: eval_defs)

text \<open>
  Claim C2, as the code has it. A pending fetch that captured subject \<open>a\<close> commits when
  it settles, whatever was committed in between: fulfilled with profile \<open>p\<close>, it
  commits the authenticated state for \<open>a\<close> with the merged user; rejected, it sets the
  error text on the state it finds and changes nothing else. In particular, from any
  world, presence of \<open>a\<close>, then absence, then the fulfilment of the fetch of \<open>a\<close> ends
  in the authenticated state for \<open>a\<close>; with a rejection instead it ends in the absent
  state carrying the error text.
\<close>

theorem stale_profile_is_committed:
  "(i < length (fetches w) \<and> fetches w ! i = (a, True) \<longrightarrow>
      map_option state (step (ProfileSettled i (Inr p)) w)
        = Some \<lparr>user = Some (mergeUser a p), isAuthenticated = True, isLoading = False,
                 error = None\<rparr>
      \<and> map_option state (step (ProfileSettled i (Inl e)) w)
        = Some ((state w)\<lparr>error := Some ''Failed to load profile''\<rparr>))
   \<and> map_option state
       (run w [SessionChanged (Some a), SessionChanged None,
               ProfileSettled (length (fetches w)) (Inr p)])
     = Some \<lparr>user = Some (mergeUser a p), isAuthenticated = True, isLoading = False,
              error = None\<rparr>
   \<and> map_option state
       (run w [SessionChanged (Some a), SessionChanged None,
               ProfileSettled (length (fetches w)) (Inl e)])
     = Some \<lparr>user = None, isAuthenticated = False, isLoading = False,
              error = Some ''Failed to load profile''\<rparr>"
  by (simp add: prim_defs handler_defs Let_def nth_append)

theorem stale_profile_is_committed_witness:
  "map_option state
     (step (ProfileSettled 0 (Inr [''email'' \<mapsto> JStr ''a@x.com'']))
        (sessionChanged None (sessionChanged (Some ''A'') initialWorld)))
   = Some \<lparr>user = Some (mergeUser ''A'' [''email'' \<mapsto> JStr ''a@x.com'']),
            isAuthenticated = True, isLoading = False, error = None\<rparr>
   \<and> state (sessionChanged None (sessionChanged (Some ''A'') initialWorld))
     = \<lparr>user = None, isAuthenticated = False, isLoading = False, error = None\<rparr>"
proof -
  have h: "0 < length (fetches (sessionChanged None (sessionChanged (Some ''A'') initialWorld)))
     \<and> fetches (sessionChanged None (sessionChanged (Some ''A'') initialWorld)) ! 0 = (''A'', True)"
    by (simp add: eval_defs)
  show ?thesis
    using h stale_profile_is_committed
      [of 0 "sessionChanged None (sessionChanged (Some ''A'') initialWorld)" "''A''"
          "[''email'' \<mapsto> JStr ''a@x.com'']"]
    by (simp add: sessionChanged_def prim_defs)
qed

section \<open>A profile fetch that fails\<close>

text \<open>
  The text that the failure branch stores is \<^verbatim>\<open>Failed to load profile\<close>; it is not
  \<^verbatim>\<open>profile load failed\<close>.
\<close>

theorem profile_failure_message_counterexample:
  "map_option (error \<circ> state)
     (run initialWorld
        [SessionChanged (Some ''u1''), ProfileSettled 0 (Inl (ErrorInstance ''network down''))])
     = Some (Some ''Failed to load profile'')
   \<and> map_option (error \<circ> state)
     (run initialWorld
        [SessionChanged (Some ''u1''), ProfileSettled 0 (Inl (ErrorInstance ''network down''))])
     \<noteq> Some (Some ''profile load failed'')"
  by (simp add: eval_defs)

text \<open>
  Claim C4, with the text the code uses. When a pending profile fetch rejects, the
  callback commits the state it found with only \<open>error\<close> changed, to
  \<^verbatim>\<open>Failed to load profile\<close>: \<open>user\<close> and \<open>isAuthenticated\<close> are as before, and
  the credential cache is not touched. So a failed fetch never turns an authenticated
  state into an unauthenticated one.
\<close>

theorem profile_failure_keeps_user:
  assumes "i < length (fetches w)" and "snd (fetches w ! i)"
  shows "\<exists>w'. step (ProfileSettled i (Inl e)) w = Some w'
           \<and> state w' = (state w)\<lparr>error := Some ''Failed to load profile''\<rparr>
           \<and> error (state w') = Some ''Failed to load profile''
           \<and> user (state w') = user (state w)
           \<and> isAuthenticated (state w') = isAuthenticated (state w)
           \<and> cache w' = cache w"
  using assms by (simp add: prim_defs handler_defs Let_def)

text \<open>An authenticated session whose second fetch fails stays authenticated.\<close>

theorem profile_failure_keeps_user_witness:
  "map_option (isAuthenticated \<circ> state)
     (step (ProfileSettled 1 (Inl (ErrorInstance ''network down'')))
        (sessionChanged (Some ''u1'')
           (profileFulfilled ''u1'' [''email'' \<mapsto> JStr ''a@x.com'']
              ((sessionChanged (Some ''u1'') initialWorld)\<lparr>fetches := [(''u1'', False)]\<rparr>))))
     = Some True
   \<and> map_option (error \<circ> state)
     (step (ProfileSettled 1 (Inl (ErrorInstance ''network down'')))
        (sessionChanged (Some ''u1'')
           (profileFulfilled ''u1'' [''email'' \<mapsto> JStr ''a@x.com'']
              ((sessionChanged (Some ''u1'') initialWorld)\<lparr>fetches := [(''u1'', False)]\<rparr>))))
     = Some (Some ''Failed to load profile'')"
proof -
  let ?w = "sessionChanged (Some ''u1'')
           (profileFulfilled ''u1'' [''email'' \<mapsto> JStr ''a@x.com'']
              ((sessionChanged (Some ''u1'') initialWorld)\<lparr>fetches := [(''u1'', False)]\<rparr>))"
  have h1: "1 < length (fetches ?w)" by (simp add: eval_defs)
  have h2: "snd (fetches ?w ! 1)" by (simp add: eval_defs)
  have a: "isAuthenticated (state ?w)" by (simp add: eval_defs)
  from profile_failure_keeps_user [OF h1 h2, of "ErrorInstance ''network down''"]
  obtain w' where s: "step (ProfileSettled 1 (Inl (ErrorInstance ''network down''))) ?w = Some w'"
    and e: "error (state w') = Some ''Failed to load profile''"
    and au: "isAuthenticated (state w') = isAuthenticated (state ?w)"
    by blast
  show ?thesis unfolding s by (simp add: e au a)
qed

section \<open>The loading flag after a failed first fetch\<close>

text \<open>
  Claim C5, at the input where the code departs from it. The failure branch of the
  callback keeps \<open>isLoading\<close> as it finds it, while the success branch, the absence
  branch and the handlers of login and signup all set it to false. At startup with a
  persisted session whose profile fetch rejects, the first callback has run to its end,
  no fetch is pending and no login or signup was ever called, and \<open>isLoading\<close> is
  still true.
\<close>

theorem profile_failure_leaves_loading:
  "isLoading (state (profileRejected e w)) = isLoading (state w)
   \<and> isLoading (state (profileFulfilled uid p w)) = False
   \<and> isLoading (state (sessionChanged None w)) = False
   \<and> isLoading (state (opCatch i k e w)) = False
   \<and> run initialWorld
        [SessionChanged (Some ''u1''), ProfileSettled 0 (Inl (ErrorInstance ''network down''))]
     = Some \<lparr>state = \<lparr>user = None, isAuthenticated = False, isLoading = True,
                       error = Some ''Failed to load profile''\<rparr>,
              cache = None,
              effects = [ConsoleError ''Failed to fetch profile:'' (ErrorInstance ''network down''),
                         SetState \<lparr>user = None, isAuthenticated = False, isLoading = True,
                                   error = Some ''Failed to load profile''\<rparr>],
              fetches = [(''u1'', False)],
              calls = []\<rparr>"
  by (simp add: eval_defs)

section \<open>Failure of login and signup\<close>

text \<open>
  The handlers take the message only from an instance of \<^verbatim>\<open>Error\<close>. A backend that
  rejects with a plain object \<^verbatim>\<open>{message: "invalid credentials"}\<close> leaves the fixed
  text in the state, and the fixed text of signup is not that of login.
\<close>

theorem login_failure_message_counterexample:
  "map_option (error \<circ> state)
     (run initialWorld
        [LoginCalled ''a@x.com'' ''pw'',
         BackendSettled 0 (Inl (NonError (JObj [''message'' \<mapsto> JStr ''invalid credentials''])))])
     = Some (Some ''Login failed'')
   \<and> map_option (error \<circ> state)
     (run initialWorld
        [SignupCalled ''a@x.com'' ''pw'',
         BackendSettled 0 (Inl (NonError (JObj [''message'' \<mapsto> JStr ''invalid credentials''])))])
     = Some (Some ''Signup failed'')"
  by (simp add: eval_defs)

text \<open>
  Claim C6, with the guard of the code. \<open>login\<close> and \<open>signup\<close> first commit
  \<open>isLoading = true\<close> and \<open>error\<close> absent, changing nothing else, and suspend at the
  backend call. When the backend call or the token exchange of such a call fails with
  \<open>e\<close>, the handler commits \<open>isLoading = false\<close> and an \<open>error\<close> that is the message
  of \<open>e\<close> if \<open>e\<close> is an instance of \<^verbatim>\<open>Error\<close>, and otherwise the fixed text
  \<^verbatim>\<open>Login failed\<close> (for signup \<^verbatim>\<open>Signup failed\<close>); the call's promise is rejected with
  \<open>e\<close> itself.
\<close>

theorem login_signup_failure_recorded_and_rethrown:
  "step (LoginCalled email password) w = Some (login email password w)
   \<and> state (login email password w) = (state w)\<lparr>isLoading := True, error := None\<rparr>
   \<and> calls (login email password w) = calls w @ [(Login, AwaitBackend)]
   \<and> step (SignupCalled email password) w = Some (signup email password w)
   \<and> state (signup email password w) = (state w)\<lparr>isLoading := True, error := None\<rparr>
   \<and> calls (signup email password w) = calls w @ [(Signup, AwaitBackend)]
   \<and> (i < length (calls w) \<and> k \<noteq> Logout
        \<and> ((calls w ! i = (k, AwaitBackend) \<and> ev = BackendSettled i (Inl e))
           \<or> (calls w ! i = (k, AwaitExchange) \<and> ev = ExchangeSettled i (Some e)))
      \<longrightarrow> (\<exists>w'. step ev w = Some w'
             \<and> state w' = (state w)
                  \<lparr>isLoading := False,
                   error := Some (case e of
                                    ErrorInstance m \<Rightarrow> m
                                  | NonError v \<Rightarrow>
                                      if k = Login then ''Login failed'' else ''Signup failed'')\<rparr>
             \<and> calls w' ! i = (k, Rejected e)))"
  by (cases k; cases e) (auto simp: prim_defs handler_defs)

text \<open>
  The backend turns a login down with \<^verbatim>\<open>new Error("invalid credentials")\<close>: the state
  carries that message and the call is rejected with that error.
\<close>

theorem login_signup_failure_recorded_and_rethrown_witness:
  "run initialWorld
     [LoginCalled ''a@x.com'' ''pw'', BackendSettled 0 (Inl (ErrorInstance ''invalid credentials''))]
   = Some \<lparr>state = \<lparr>user = None, isAuthenticated = False, isLoading = False,
                     error = Some ''invalid credentials''\<rparr>,
            cache = None,
            effects = [SetState \<lparr>user = None, isAuthenticated = False, isLoading = True,
                                 error = None\<rparr>,
                       SetState \<lparr>user = None, isAuthenticated = False, isLoading = False,
                                 error = Some ''invalid credentials''\<rparr>],
            fetches = [],
            calls = [(Login, Rejected (ErrorInstance ''invalid credentials''))]\<rparr>"
proof -
  let ?w = "login ''a@x.com'' ''pw'' initialWorld"
  let ?e = "ErrorInstance ''invalid credentials''"
  have h: "0 < length (calls ?w) \<and> Login \<noteq> Logout
           \<and> ((calls ?w ! 0 = (Login, AwaitBackend)
                 \<and> BackendSettled 0 (Inl ?e) = BackendSettled 0 (Inl ?e))
              \<or> (calls ?w ! 0 = (Login, AwaitExchange)
                 \<and> BackendSettled 0 (Inl ?e) = ExchangeSettled 0 (Some ?e)))"
    by (simp add: eval_defs)
  from login_signup_failure_recorded_and_rethrown
         [where w = ?w and i = 0 and k = Login and ev = "BackendSettled 0 (Inl ?e)" and e = ?e] h
  obtain w' where s: "step (BackendSettled 0 (Inl ?e)) ?w = Some w'"
    and st: "state w' = (state ?w)\<lparr>isLoading := False, error := Some ''invalid credentials''\<rparr>"
    and c: "calls w' ! 0 = (Login, Rejected ?e)"
    by auto
  from s st c show ?thesis by (simp add: eval_defs)
qed

section \<open>logout\<close>

lemma step_logoutEntryOk:
  assumes "step e w = Some w'" and "list_all logoutEntryOk (calls w)"
  shows "list_all logoutEntryOk (calls w')"
proof (cases e)
  case (BackendSettled i r)
  with assms show ?thesis
    by (cases "fst (calls w ! i)")
       (auto simp: prim_defs handler_defs intro!: list_all_update dest: list_all_nth
          split: if_splits sum.splits prod.splits op_status.splits)
next
  case (ExchangeSettled i r)
  with assms show ?thesis
    by (cases "fst (calls w ! i)")
       (auto simp: prim_defs handler_defs intro!: list_all_update dest: list_all_nth
          split: if_splits option.splits prod.splits op_status.splits)
next
  case (SignOutSettled i so bo)
  with assms show ?thesis
    by (auto simp: prim_defs handler_defs intro!: list_all_update
          split: if_splits option.splits prod.splits op_status.splits op_kind.splits)
next
  case (BackendLogoutSettled i r)
  with assms show ?thesis
    by (auto simp: prim_defs handler_defs intro!: list_all_update
          split: if_splits option.splits prod.splits op_status.splits op_kind.splits)
qed (use assms in \<open>auto simp: prim_defs handler_defs Let_def split: if_splits sum.splits option.splits\<close>)

lemma run_logoutEntryOk:
  "run w es = Some w' \<Longrightarrow> list_all logoutEntryOk (calls w) \<Longrightarrow> list_all logoutEntryOk (calls w')"
proof (induction es arbitrary: w)
  case Nil
  then show ?case by simp
next
  case (Cons e es)
  then show ?case
    by (auto split: option.splits dest: step_logoutEntryOk)
qed

lemma consoleLines_append: "consoleLines (fs @ gs) = consoleLines fs @ consoleLines gs"
  by (induction fs rule: consoleLines.induct) simp_all

text \<open>
  Claim C7, at the input where the code departs from it. \<open>logout\<close> commits nothing
  and its promise is never rejected, in any reachable world. An error of the sign-out,
  or one thrown by the call \<^verbatim>\<open>apiClient.logout()\<close> itself, is caught and logged. But
  that call is not awaited, so when the promise it returned is rejected later,
  \<open>logout\<close> has already resolved: its handler does not run, nothing is written on
  the console, and the rejection goes unhandled.
\<close>

theorem logout_backend_rejection_escapes_handler:
  "step LogoutCalled w = Some (logout w)
   \<and> state (logout w) = state w
   \<and> cache (logout w) = cache w
   \<and> effects (logout w) = effects w
   \<and> state (logoutResumed i signOutError backendError w) = state w
   \<and> cache (logoutResumed i signOutError backendError w) = cache w
   \<and> effects (logoutResumed i signOutError backendError w) = effects w @
        (case signOutError of
           Some e \<Rightarrow> [ConsoleError ''Logout failed:'' e]
         | None \<Rightarrow>
             (case backendError of
                Some e \<Rightarrow> [ConsoleError ''Logout failed:'' e]
              | None \<Rightarrow> []))
   \<and> state (backendLogoutSettled i r w) = state w
   \<and> cache (backendLogoutSettled i r w) = cache w
   \<and> effects (backendLogoutSettled i r w) = effects w @
        (case r of Some e \<Rightarrow> [UnhandledRejection e] | None \<Rightarrow> [])
   \<and> consoleLines (effects (backendLogoutSettled i r w)) = consoleLines (effects w)
   \<and> (run initialWorld es = Some v \<longrightarrow> list_all logoutEntryOk (calls v))"
proof -
  have "run initialWorld es = Some v \<Longrightarrow> list_all logoutEntryOk (calls v)"
    by (erule run_logoutEntryOk) (simp add: initialWorld_def)
  then show ?thesis
    by (auto simp: prim_defs handler_defs consoleLines_append split: option.splits)
qed

text \<open>
  Logged in as \<open>u1\<close>, the user logs out. The sign-out resolves, the backend logout
  call returns, the provider reports the absence, and then the backend's promise is
  rejected. The call of \<open>logout\<close> has resolved, the state is the cleared one, and the
  console has no line: the rejection is in the log only as unhandled.
\<close>

theorem logout_backend_rejection_escapes_handler_witness:
  "run initialWorld
     [SessionChanged (Some ''u1''), ProfileSettled 0 (Inr [''email'' \<mapsto> JStr ''a@x.com'']),
      LogoutCalled, SignOutSettled 0 None None, SessionChanged None,
      BackendLogoutSettled 0 (Some (ErrorInstance ''network down''))]
   = Some \<lparr>state = \<lparr>user = None, isAuthenticated = False, isLoading = False, error = None\<rparr>,
            cache = None,
            effects = [SetState \<lparr>user = Some [''uid'' \<mapsto> JStr ''u1'', ''email'' \<mapsto> JStr ''a@x.com''],
                                 isAuthenticated = True, isLoading = False, error = None\<rparr>,
                       SetAuth [] ''u1'',
                       ClearAuth,
                       SetState \<lparr>user = None, isAuthenticated = False, isLoading = False,
                                 error = None\<rparr>,
                       UnhandledRejection (ErrorInstance ''network down'')],
            fetches = [(''u1'', False)],
            calls = [(Logout, Resolved)]\<rparr>
   \<and> consoleLines
        [SetState \<lparr>user = Some [''uid'' \<mapsto> JStr ''u1'', ''email'' \<mapsto> JStr ''a@x.com''],
                   isAuthenticated = True, isLoading = False, error = None\<rparr>,
         SetAuth [] ''u1'',
         ClearAuth,
         SetState \<lparr>user = None, isAuthenticated = False, isLoading = False, error = None\<rparr>,
         UnhandledRejection (ErrorInstance ''network down'')] = []
   \<and> list_all logoutEntryOk [(Logout, Resolved)]"
proof -
  let ?es = "[SessionChanged (Some ''u1''), ProfileSettled 0 (Inr [''email'' \<mapsto> JStr ''a@x.com'']),
      LogoutCalled, SignOutSettled 0 None None, SessionChanged None,
      BackendLogoutSettled 0 (Some (ErrorInstance ''network down''))]"
  let ?v = "\<lparr>state = \<lparr>user = None, isAuthenticated = False, isLoading = False, error = None\<rparr>,
            cache = None,
            effects = [SetState \<lparr>user = Some [''uid'' \<mapsto> JStr ''u1'', ''email'' \<mapsto> JStr ''a@x.com''],
                                 isAuthenticated = True, isLoading = False, error = None\<rparr>,
                       SetAuth [] ''u1'',
                       ClearAuth,
                       SetState \<lparr>user = None, isAuthenticated = False, isLoading = False,
                                 error = None\<rparr>,
                       UnhandledRejection (ErrorInstance ''network down'')],
            fetches = [(''u1'', False)],
            calls = [(Logout, Resolved)]\<rparr>"
  have r: "run initialWorld ?es = Some ?v"
    by (simp add: eval_defs)
  note all = logout_backend_rejection_escapes_handler [where es = ?es and v = ?v]
  note last = all [THEN conjunct2, THEN conjunct2, THEN conjunct2, THEN conjunct2,
                   THEN conjunct2, THEN conjunct2, THEN conjunct2, THEN conjunct2,
                   THEN conjunct2, THEN conjunct2, THEN conjunct2]
  have ok: "list_all logoutEntryOk (calls ?v)"
    by (rule mp [OF last r])
  from r ok show ?thesis by simp
qed

section \<open>clearError\<close>

text \<open>
  Claim C8. \<open>clearError\<close> always runs (it is a total function and its event is always
  enabled), sets \<open>error\<close> to absent, leaves \<open>user\<close>, \<open>isAuthenticated\<close> and
  \<open>isLoading\<close> (and the cache and everything pending) as they were, and doing it twice
  gives the state that doing it once gives.
\<close>

theorem clearError_frame_idempotent:
  "step ClearErrorCalled w = Some (clearError w)
   \<and> state (clearError w) = (state w)\<lparr>error := None\<rparr>
   \<and> error (state (clearError w)) = None
   \<and> user (state (clearError w)) = user (state w)
   \<and> isAuthenticated (state (clearError w)) = isAuthenticated (state w)
   \<and> isLoading (state (clearError w)) = isLoading (state w)
   \<and> cache (clearError w) = cache w
   \<and> fetches (clearError w) = fetches w
   \<and> calls (clearError w) = calls w
   \<and> state (clearError (clearError w)) = state (clearError w)"
  by (simp add: clearError_def prim_defs)

section \<open>The merged user\<close>

text \<open>
  Claim C9, at the input where the code departs from it. The callback reads the
  provider's \<open>uid\<close> (line 46), puts it first in the user object (line 50) and stores it
  in the credential cache (line 55). The fetched profile is merged whole: every property
  of the profile is in the user with the profile's value, and the user has nothing else
  but \<open>uid\<close>. But the spread comes after \<open>uid\<close> in the literal, so a profile with a
  \<open>uid\<close> property of its own replaces the provider's: with the session of \<open>u1\<close> and a
  profile whose \<open>uid\<close> is \<open>u2\<close>, the committed user has \<open>u2\<close> while the cache has
  \<open>u1\<close>.
\<close>

theorem profile_uid_replaces_provider_uid:
  "map_option (user \<circ> state)
     (run w [SessionChanged (Some a), ProfileSettled (length (fetches w)) (Inr p)])
     = Some (Some (mergeUser a p))
   \<and> map_option cache
     (run w [SessionChanged (Some a), ProfileSettled (length (fetches w)) (Inr p)])
     = Some (Some ([], a))
   \<and> mergeUser a p k =
       (case p k of Some v \<Rightarrow> Some v | None \<Rightarrow> if k = ''uid'' then Some (JStr a) else None)
   \<and> run initialWorld
        [SessionChanged (Some ''u1''),
         ProfileSettled 0 (Inr [''uid'' \<mapsto> JStr ''u2'', ''email'' \<mapsto> JStr ''a@x.com''])]
     = Some \<lparr>state = \<lparr>user = Some [''uid'' \<mapsto> JStr ''u2'', ''email'' \<mapsto> JStr ''a@x.com''],
                       isAuthenticated = True, isLoading = False, error = None\<rparr>,
              cache = Some ([], ''u1''),
              effects = [SetState \<lparr>user = Some [''uid'' \<mapsto> JStr ''u2'',
                                                 ''email'' \<mapsto> JStr ''a@x.com''],
                                   isAuthenticated = True, isLoading = False, error = None\<rparr>,
                         SetAuth [] ''u1''],
              fetches = [(''u1'', False)],
              calls = []\<rparr>"
proof -
  have m: "mergeUser a p k =
       (case p k of Some v \<Rightarrow> Some v | None \<Rightarrow> if k = ''uid'' then Some (JStr a) else None)"
    by (simp add: mergeUser_def map_add_def split: option.splits)
  have g: "run w [SessionChanged (Some a), ProfileSettled (length (fetches w)) (Inr p)]
           = Some (profileFulfilled a p
                    (w\<lparr>fetches := fetches w @ [(a, False)]\<rparr>))"
    by (simp add: sessionChanged_def Let_def nth_append)
  have c: "run initialWorld
        [SessionChanged (Some ''u1''),
         ProfileSettled 0 (Inr [''uid'' \<mapsto> JStr ''u2'', ''email'' \<mapsto> JStr ''a@x.com''])]
     = Some \<lparr>state = \<lparr>user = Some [''uid'' \<mapsto> JStr ''u2'', ''email'' \<mapsto> JStr ''a@x.com''],
                       isAuthenticated = True, isLoading = False, error = None\<rparr>,
              cache = Some ([], ''u1''),
              effects = [SetState \<lparr>user = Some [''uid'' \<mapsto> JStr ''u2'',
                                                 ''email'' \<mapsto> JStr ''a@x.com''],
                                   isAuthenticated = True, isLoading = False, error = None\<rparr>,
                         SetAuth [] ''u1''],
              fetches = [(''u1'', False)],
              calls = []\<rparr>"
    by (simp add: eval_defs)
  have u: "map_option (user \<circ> state)
     (run w [SessionChanged (Some a), ProfileSettled (length (fetches w)) (Inr p)])
     = Some (Some (mergeUser a p))"
    unfolding g by (simp add: profileFulfilled_def prim_defs)
  have h: "map_option cache
     (run w [SessionChanged (Some a), ProfileSettled (length (fetches w)) (Inr p)])
     = Some (Some ([], a))"
    unfolding g by (simp add: profileFulfilled_def prim_defs)
  show ?thesis
    by (intro conjI u h m c)
qed

section \<open>useAuth\<close>

text \<open>
  Claim C10. Outside a provider the context is absent and \<open>useAuth\<close> throws an
  \<^verbatim>\<open>Error\<close> with the message \<^verbatim>\<open>useAuth must be used within an AuthProvider\<close>. Inside
  a provider it returns the provider's value: the fields of the current state and the
  operations login, signup, logout and clearError.
\<close>

theorem useAuth_outside_and_inside:
  "useAuth None = Inl (ErrorInstance ''useAuth must be used within an AuthProvider'')
   \<and> useAuth (Some (providerValue s)) = Inr (providerValue s)
   \<and> AuthState.truncate (providerValue s) = s
   \<and> login_fn (providerValue s) = login
   \<and> signup_fn (providerValue s) = signup
   \<and> logout_fn (providerValue s) = logout
   \<and> clearError_fn (providerValue s) = clearError"
  by (simp add: useAuth_def providerValue_def AuthState.truncate_def)

end
